theory Spec2Isabelle
  imports Complex_Main "HOL-Library.AList" "HOL-Library.Sublist"
begin

section \<open>Distance-based downsampling: 2_distance_downsample.py\<close>

text \<open>
  The script reads a two-column metadata file and a square distance matrix, marks the
  sequences of a priority group, clusters the sequences hierarchically and cuts the
  dendrogram at increasing heights until the priority sequences plus one medoid per
  remaining cluster fit under a target count.

  Conventions of the embedding:
  \<^item> text is ASCII: a \<open>string\<close> is a list of characters, and Python's whitespace is its
    ASCII part;
  \<^item> a float64 is either \<open>NaN\<close> or a finite number \<open>Fin x\<close> with exact arithmetic on
    \<open>x\<close>: rounding, overflow and the infinities are outside the model;
  \<^item> every \<open>raise\<close> of the script is a value \<open>Inl e\<close> of the type \<open>error + 'a\<close>;
  \<^item> SciPy's \<open>linkage\<close> and \<open>fcluster\<close> are library code: they are parameters of the
    functions that call them.
\<close>

subsection \<open>Errors\<close>

datatype error =
    MetaEmptyOrMalformed            \<comment> \<open>ValueError of \<open>read_meta\<close>\<close>
  | PriorityExceedsTarget nat int   \<comment> \<open>ValueError of \<open>ensure_priority_subset\<close>\<close>
  | MatrixContainsNaN               \<comment> \<open>ValueError of \<open>main\<close> after the condensed conversion\<close>
  | LibraryError                    \<comment> \<open>an exception raised inside SciPy's \<open>linkage\<close>\<close>

subsection \<open>Python string helpers\<close>

definition is_space :: "char \<Rightarrow> bool" where
  "is_space c = (c \<in> set [CHR 0x09, CHR 0x0A, CHR 0x0B, CHR 0x0C, CHR 0x0D,
                            CHR 0x1C, CHR 0x1D, CHR 0x1E, CHR 0x1F, CHR 0x20])"

text \<open>\<open>str.strip()\<close>: whitespace removed at both ends.\<close>

definition strip :: "string \<Rightarrow> string" where
  "strip s = rev (dropWhile is_space (rev (dropWhile is_space s)))"

text \<open>
  \<open>str.split()\<close> without arguments: the maximal runs of non-whitespace characters, in
  order. \<open>cur\<close> is the field being read.
\<close>

fun split_from :: "string \<Rightarrow> string \<Rightarrow> string list" where
  "split_from cur [] = (if cur = [] then [] else [cur])"
| "split_from cur (c # cs) =
     (if is_space c
      then (if cur = [] then split_from [] cs else cur # split_from [] cs)
      else split_from (cur @ [c]) cs)"

definition split_ws :: "string \<Rightarrow> string list" where
  "split_ws s = split_from [] s"

text \<open>\<open>base_id\<close>: \<open>label.split("_", 1)[0]\<close>, the text before the first underscore.\<close>

definition base_id :: "string \<Rightarrow> string" where
  "base_id label = takeWhile (\<lambda>c. c \<noteq> CHR ''_'') label"

subsection \<open>read_meta\<close>

text \<open>
  The dictionary \<open>mapping\<close> is an association list in insertion order; assigning to a key
  that is present replaces its value in place, as a Python \<open>dict\<close> does
  (\<open>AList.update\<close>). The argument is the list of the file's lines.
\<close>

fun read_meta_loop :: "(string \<times> string) list \<Rightarrow> string list \<Rightarrow> (string \<times> string) list" where
  "read_meta_loop mapping [] = mapping"
| "read_meta_loop mapping (line # rest) =
     (let line' = strip line in
      if line' = [] then read_meta_loop mapping rest
      else
        let parts = split_ws line' in
        if length parts < 2 then read_meta_loop mapping rest
        else read_meta_loop (AList.update (parts ! 0) (parts ! 1) mapping) rest)"

definition read_meta :: "string list \<Rightarrow> error + (string \<times> string) list" where
  "read_meta lines =
     (let mapping = read_meta_loop [] lines in
      if mapping = [] then Inl MetaEmptyOrMalformed else Inr mapping)"

text \<open>A line is a record when it has at least two whitespace-separated fields.\<close>

definition is_record_line :: "string \<Rightarrow> bool" where
  "is_record_line line = (2 \<le> length (split_ws (strip line)))"

definition line_id :: "string \<Rightarrow> string" where
  "line_id line = split_ws (strip line) ! 0"

definition line_group :: "string \<Rightarrow> string" where
  "line_group line = split_ws (strip line) ! 1"

subsection \<open>Floating-point values and the distance matrix\<close>

datatype fp = NaN | Fin real

text \<open>
  The matrix is the \<open>n \<times> n\<close> array built by \<open>read_mldist\<close>, as the list of its rows;
  \<open>names\<close> is the list of the row names. \<open>read_mldist\<close> checks neither symmetry nor the
  diagonal nor the sign of an entry.
\<close>

type_synonym matrix = "fp list list"

definition isnan :: "fp \<Rightarrow> bool" where
  "isnan x = (x = NaN)"

fun fp_add :: "fp \<Rightarrow> fp \<Rightarrow> fp" where
  "fp_add (Fin a) (Fin b) = Fin (a + b)"
| "fp_add _ _ = NaN"

text \<open>\<open>x >= y\<close> on floats: false as soon as one side is NaN.\<close>

fun fp_ge :: "fp \<Rightarrow> fp \<Rightarrow> bool" where
  "fp_ge (Fin a) (Fin b) = (b \<le> a)"
| "fp_ge _ _ = False"

definition fp_sum :: "fp list \<Rightarrow> fp" where
  "fp_sum xs = foldl fp_add (Fin 0) xs"

text \<open>
  \<open>numpy.argmin\<close> on a vector of floats: the position of the first NaN when there is
  one, otherwise the first position of the least value. The loop keeps the least value
  \<open>mp\<close> seen so far and its position, and moves on an entry \<open>x\<close> with \<open>not (x >= mp)\<close>.
  On an empty vector NumPy raises; \<open>medoid_index\<close> never passes one (a cluster has a
  member), and the model returns position 0 there.
\<close>

fun argmin_loop :: "fp list \<Rightarrow> nat \<Rightarrow> fp \<Rightarrow> nat \<Rightarrow> nat" where
  "argmin_loop [] i mp min_ind = min_ind"
| "argmin_loop (x # xs) i mp min_ind =
     (if \<not> fp_ge x mp
      then (if isnan x then i else argmin_loop xs (Suc i) x i)
      else argmin_loop xs (Suc i) mp min_ind)"

definition argmin :: "fp list \<Rightarrow> nat" where
  "argmin xs = (case xs of [] \<Rightarrow> 0
                | x # rest \<Rightarrow> if isnan x then 0 else argmin_loop rest 1 x 0)"

text \<open>
  \<open>scipy.spatial.distance.squareform(X, checks=False)\<close> on a square matrix: the entries
  \<open>X[i, j]\<close> with \<open>i < j\<close>, row by row, and the empty vector when there is at most one
  row. With \<open>checks=False\<close> neither symmetry nor the diagonal is looked at.
\<close>

definition squareform :: "matrix \<Rightarrow> fp list" where
  "squareform X =
     (let d = length X in concat (map (\<lambda>i. map (\<lambda>j. X ! i ! j) [Suc i..<d]) [0..<d]))"

subsection \<open>medoid_index\<close>

text \<open>
  \<open>sub\<close> is \<open>full_matrix[np.ix_(indices, indices)]\<close> and \<open>row_sums\<close> is
  \<open>sub.sum(axis=1)\<close>: the sum of a whole row of \<open>sub\<close>, the diagonal entry included. The
  source calls it \<open>sums\<close>, a word the term syntax reserves.
\<close>

definition medoid_index :: "matrix \<Rightarrow> nat list \<Rightarrow> nat" where
  "medoid_index full_matrix indices =
     (if length indices = 1 then indices ! 0
      else
        let sub = map (\<lambda>i. map (\<lambda>j. full_matrix ! i ! j) indices) indices;
            row_sums = map fp_sum sub
        in indices ! argmin row_sums)"

subsection \<open>select_at_threshold\<close>

record cluster_record =
  cluster_id :: int
  cluster_size :: nat
  required_count :: nat
  selected_ids :: "string list"

text \<open>
  \<open>clusters[cluster_id].append(idx)\<close> on the \<open>defaultdict(list)\<close>: the dictionary is an
  association list in insertion order; a new key goes to the end with a one-element list.
\<close>

fun dict_append :: "(int \<times> nat list) list \<Rightarrow> int \<Rightarrow> nat \<Rightarrow> (int \<times> nat list) list" where
  "dict_append [] k v = [(k, [v])]"
| "dict_append ((k', vs) # d) k v =
     (if k' = k then (k', vs @ [v]) # d else (k', vs) # dict_append d k v)"

text \<open>The loop over \<open>enumerate(cluster_labels)\<close>; \<open>idx\<close> is the running index.\<close>

fun group_labels :: "(int \<times> nat list) list \<Rightarrow> nat \<Rightarrow> int list \<Rightarrow> (int \<times> nat list) list" where
  "group_labels clusters idx [] = clusters"
| "group_labels clusters idx (cid # rest) =
     group_labels (dict_append clusters cid idx) (Suc idx) rest"

text \<open>The body of the loop over \<open>clusters.items()\<close>: what one cluster keeps, and its record.\<close>

definition cluster_kept :: "matrix \<Rightarrow> bool list \<Rightarrow> nat list \<Rightarrow> nat list" where
  "cluster_kept dist_matrix required_mask members =
     (let required_in_cluster = filter (\<lambda>i. required_mask ! i) members in
      if required_in_cluster \<noteq> [] then required_in_cluster
      else [medoid_index dist_matrix members])"

definition cluster_entry ::
  "string list \<Rightarrow> matrix \<Rightarrow> bool list \<Rightarrow> int \<times> nat list \<Rightarrow> cluster_record" where
  "cluster_entry names dist_matrix required_mask item =
     (case item of (cid, members) \<Rightarrow>
        \<lparr>cluster_id = cid,
         cluster_size = length members,
         required_count = length (filter (\<lambda>i. required_mask ! i) members),
         selected_ids = map (\<lambda>i. names ! i) (cluster_kept dist_matrix required_mask members)\<rparr>)"

text \<open>
  \<open>fcluster\<close> is SciPy's function (with \<open>criterion="distance"\<close>); \<open>Z\<close> is the dendrogram.
  SciPy returns one label per observation, so the labels are as many as the names.
  \<open>required_indices\<close> and \<open>target\<close> are parameters the body does not use.
\<close>

definition select_at_threshold ::
  "('z \<Rightarrow> real \<Rightarrow> int list) \<Rightarrow> 'z \<Rightarrow> real \<Rightarrow> string list \<Rightarrow> matrix \<Rightarrow> bool list \<Rightarrow> nat list \<Rightarrow> int
   \<Rightarrow> nat list \<times> cluster_record list" where
  "select_at_threshold fcluster Z threshold names dist_matrix required_mask required_indices target =
     (let cluster_labels = fcluster Z threshold;
          clusters = group_labels [] 0 cluster_labels;
          selected = concat (map (\<lambda>item. cluster_kept dist_matrix required_mask (snd item)) clusters);
          cluster_records = map (cluster_entry names dist_matrix required_mask) clusters;
          selected_unique = sort (remdups selected);
          selected_ordered = filter (\<lambda>idx. idx \<in> set selected_unique) [0..<length names]
      in (selected_ordered, sort_key cluster_id cluster_records))"

subsection \<open>ensure_priority_subset\<close>

definition ensure_priority_subset :: "nat list \<Rightarrow> int \<Rightarrow> error + unit" where
  "ensure_priority_subset required_indices target =
     (if int (length required_indices) > target
      then Inl (PriorityExceedsTarget (length required_indices) target)
      else Inr ())"

subsection \<open>main\<close>

text \<open>
  The priority marking: the ids of the metadata whose group is the priority group, the
  indices of the names whose \<open>base_id\<close> is one of them, and the mask over all indices.
\<close>

definition priority_ids :: "(string \<times> string) list \<Rightarrow> string \<Rightarrow> string list" where
  "priority_ids meta_map priority_group =
     map fst (filter (\<lambda>item. snd item = priority_group) meta_map)"

definition required_indices_of :: "(string \<times> string) list \<Rightarrow> string \<Rightarrow> string list \<Rightarrow> nat list" where
  "required_indices_of meta_map priority_group names =
     filter (\<lambda>idx. base_id (names ! idx) \<in> set (priority_ids meta_map priority_group))
       [0..<length names]"

definition required_mask_of :: "nat \<Rightarrow> nat list \<Rightarrow> bool list" where
  "required_mask_of n required_indices = map (\<lambda>idx. idx \<in> set required_indices) [0..<n]"

text \<open>
  The candidate thresholds: \<open>np.unique(condensed[condensed > 0])\<close>, or \<open>[0.0]\<close> when no
  entry is positive, followed by \<open>max_distance + 1e-6\<close>, where \<open>max_distance\<close> is the
  largest of them, lowered to \<open>max_threshold\<close> when that option is given and smaller.
\<close>

definition positive_distances :: "fp list \<Rightarrow> real list" where
  "positive_distances condensed =
     (let pos = sort (remdups [x. Fin x \<leftarrow> condensed, 0 < x]) in
      if pos = [] then [0] else pos)"

definition candidate_thresholds :: "fp list \<Rightarrow> real option \<Rightarrow> real list" where
  "candidate_thresholds condensed max_threshold =
     (let pos = positive_distances condensed;
          max_distance = Max (set pos);
          max_distance = (case max_threshold of None \<Rightarrow> max_distance
                          | Some mt \<Rightarrow> min max_distance mt)
      in pos @ [max_distance + 1 / 1000000])"

record outcome =
  chosen_indices :: "nat list"
  chosen_records :: "cluster_record list"
  chosen_threshold :: real

text \<open>
  The loop over the candidate thresholds: \<open>sel\<close> is \<open>select_at_threshold\<close> with all
  arguments but the threshold fixed. The loop stops at the first candidate whose
  selection has at most \<open>target\<close> indices; \<open>None\<close> is the loop ending with nothing chosen.
\<close>

fun search :: "(real \<Rightarrow> nat list \<times> cluster_record list) \<Rightarrow> int \<Rightarrow> real list \<Rightarrow> outcome option" where
  "search sel target [] = None"
| "search sel target (threshold # rest) =
     (case sel threshold of (indices, records) \<Rightarrow>
        if int (length indices) \<le> target
        then Some \<lparr>chosen_indices = indices, chosen_records = records, chosen_threshold = threshold\<rparr>
        else search sel target rest)"

text \<open>The loop and the fallback on the last candidate when nothing was chosen.\<close>

definition threshold_search ::
  "(real \<Rightarrow> nat list \<times> cluster_record list) \<Rightarrow> int \<Rightarrow> real list \<Rightarrow> outcome" where
  "threshold_search sel target candidates =
     (case search sel target candidates of
        Some r \<Rightarrow> r
      | None \<Rightarrow>
          (case sel (last candidates) of (indices, records) \<Rightarrow>
             \<lparr>chosen_indices = indices, chosen_records = records,
              chosen_threshold = last candidates\<rparr>))"

datatype linkage_method = Single | Complete | Average | Weighted | Centroid

text \<open>
  \<open>main\<close> from the metadata to the chosen selection. \<open>meta_lines\<close> is the metadata file,
  \<open>names\<close> and \<open>dist_matrix\<close> are what \<open>read_mldist\<close> returned, the other arguments are
  the options \<open>--priority\<close>, \<open>--target\<close>, \<open>--linkage\<close> and \<open>--max-threshold\<close>. SciPy's
  \<open>linkage\<close> may raise (it does on an empty condensed vector): it returns an option,
  and \<open>None\<close> becomes \<open>LibraryError\<close>.
\<close>

definition main ::
  "(fp list \<Rightarrow> linkage_method \<Rightarrow> 'z option) \<Rightarrow> ('z \<Rightarrow> real \<Rightarrow> int list) \<Rightarrow>
   string list \<Rightarrow> string list \<Rightarrow> matrix \<Rightarrow> string \<Rightarrow> int \<Rightarrow> linkage_method \<Rightarrow> real option
   \<Rightarrow> error + outcome" where
  "main linkage fcluster meta_lines names dist_matrix priority_group target meth max_threshold =
     (case read_meta meta_lines of
        Inl e \<Rightarrow> Inl e
      | Inr meta_map \<Rightarrow>
          let n = length names;
              required_indices = required_indices_of meta_map priority_group names;
              required_mask = required_mask_of n required_indices
          in case ensure_priority_subset required_indices target of
               Inl e \<Rightarrow> Inl e
             | Inr _ \<Rightarrow>
                 let condensed = squareform dist_matrix in
                 if list_ex isnan condensed then Inl MatrixContainsNaN
                 else
                   case linkage condensed meth of
                     None \<Rightarrow> Inl LibraryError
                   | Some Z \<Rightarrow>
                       Inr (threshold_search
                             (\<lambda>threshold. select_at_threshold fcluster Z threshold names dist_matrix
                                required_mask required_indices target)
                             target (candidate_thresholds condensed max_threshold)))"

subsection \<open>Notions used in the statements\<close>

text \<open>The members of the cluster with label \<open>c\<close>, in input order.\<close>

definition members_of :: "int list \<Rightarrow> int \<Rightarrow> nat list" where
  "members_of cluster_labels c = filter (\<lambda>i. cluster_labels ! i = c) [0..<length cluster_labels]"



text \<open>The list stored under a key of the cluster dictionary, empty for an absent key.\<close>

definition vals :: "(int \<times> nat list) list \<Rightarrow> int \<Rightarrow> nat list" where
  "vals d c = (case map_of d c of None \<Rightarrow> [] | Some vs \<Rightarrow> vs)"


text \<open>The selection that \<open>main\<close> evaluates at a threshold, once the dendrogram is built.\<close>

definition selection_at ::
  "('z \<Rightarrow> real \<Rightarrow> int list) \<Rightarrow> 'z \<Rightarrow> (string \<times> string) list \<Rightarrow> string list \<Rightarrow> matrix \<Rightarrow> string
   \<Rightarrow> int \<Rightarrow> real \<Rightarrow> nat list \<times> cluster_record list" where
  "selection_at fcluster Z meta_map names dist_matrix priority_group target threshold =
     select_at_threshold fcluster Z threshold names dist_matrix
       (required_mask_of (length names) (required_indices_of meta_map priority_group names))
       (required_indices_of meta_map priority_group names) target"

subsection \<open>SciPy on two and on three observations\<close>

text \<open>
  The examples below need a concrete \<open>linkage\<close> and \<open>fcluster\<close>. On two observations
  the dendrogram is one merge, at the height of the only distance, whatever the linkage rule;
  \<open>fcluster\<close> with \<open>criterion="distance"\<close> puts both observations in cluster 1 when the
  threshold reaches that height, and in clusters 1 and 2 otherwise. Any other condensed
  vector is outside this stand-in (\<open>None\<close>).
\<close>

definition linkage_two :: "fp list \<Rightarrow> linkage_method \<Rightarrow> real option" where
  "linkage_two condensed meth = (case condensed of [Fin h] \<Rightarrow> Some h | _ \<Rightarrow> None)"

definition fcluster_two :: "real \<Rightarrow> real \<Rightarrow> int list" where
  "fcluster_two h t = (if h \<le> t then [1, 1] else [1, 2])"

text \<open>
  On three observations where 0 and 1 are strictly the closest pair, average linkage
  merges them at their distance \<open>a\<close>, and the pair with observation 2 at the mean of the
  two other distances. The dendrogram is the pair of the two heights; cutting it gives
  one cluster from the second height on, the clusters \<open>{0, 1}\<close> and \<open>{2}\<close> from the first
  height on, and three singletons below. Other inputs are outside this stand-in.
\<close>

definition linkage_three :: "fp list \<Rightarrow> linkage_method \<Rightarrow> (real \<times> real) option" where
  "linkage_three condensed meth =
     (case (condensed, meth) of
        ([Fin a, Fin b, Fin c], Average) \<Rightarrow>
          if a < b \<and> a < c then Some (a, (b + c) / 2) else None
      | _ \<Rightarrow> None)"

definition fcluster_three :: "real \<times> real \<Rightarrow> real \<Rightarrow> int list" where
  "fcluster_three Z t =
     (if snd Z \<le> t then [1, 1, 1] else if fst Z \<le> t then [1, 1, 2] else [1, 2, 3])"

section \<open>Properties\<close>

subsection \<open>read_meta\<close>

lemma split_from_Nil_iff: "split_from cur s = [] \<longleftrightarrow> cur = [] \<and> (\<forall>c\<in>set s. is_space c)"
  by (induction s arbitrary: cur) auto

lemma strip_Nil_no_record: "strip line = [] \<Longrightarrow> \<not> is_record_line line"
  by (simp add: is_record_line_def split_ws_def)

lemma read_meta_loop_skip:
  "\<not> is_record_line line \<Longrightarrow> read_meta_loop m (line # rest) = read_meta_loop m rest"
  by (simp add: is_record_line_def Let_def)

lemma read_meta_loop_record:
  "is_record_line line \<Longrightarrow>
   read_meta_loop m (line # rest) = read_meta_loop (AList.update (line_id line) (line_group line) m) rest"
  using strip_Nil_no_record [of line]
  by (auto simp: is_record_line_def line_id_def line_group_def Let_def)

declare read_meta_loop.simps(2) [simp del]

lemma read_meta_loop_filter:
  "read_meta_loop m (filter is_record_line ls) = read_meta_loop m ls"
proof (induction ls arbitrary: m)
  case Nil
  show ?case by simp
next
  case (Cons l ls)
  show ?case
  proof (cases "is_record_line l")
    case True
    then show ?thesis
      using Cons.IH by (simp add: read_meta_loop_record)
  next
    case False
    then show ?thesis
      using Cons.IH by (simp add: read_meta_loop_skip)
  qed
qed






subsection \<open>The cluster dictionary\<close>

lemma dict_append_keys:
  "fst ` set (dict_append d k v) = insert k (fst ` set d)"
  by (induction d k v rule: dict_append.induct) auto

lemma dict_append_distinct:
  "distinct (map fst d) \<Longrightarrow> distinct (map fst (dict_append d k v))"
  by (induction d k v rule: dict_append.induct) (auto simp: dict_append_keys)

lemma dict_append_map_of:
  "map_of (dict_append d k v) c =
     (if c = k then Some ((case map_of d k of None \<Rightarrow> [] | Some vs \<Rightarrow> vs) @ [v]) else map_of d c)"
  by (induction d k v rule: dict_append.induct) auto

lemma group_labels_keys:
  "fst ` set (group_labels d k xs) = fst ` set d \<union> set xs"
  by (induction d k xs rule: group_labels.induct) (auto simp: dict_append_keys)

lemma group_labels_distinct:
  "distinct (map fst d) \<Longrightarrow> distinct (map fst (group_labels d k xs))"
  by (induction d k xs rule: group_labels.induct) (auto simp: dict_append_distinct)

lemma filter_upt_Cons:
  "filter (\<lambda>j. (x # xs) ! (j - k) = c) [k..<k + Suc (length xs)] =
     (if x = c then [k] else []) @ filter (\<lambda>j. xs ! (j - Suc k) = c) [Suc k..<Suc k + length xs]"
proof -
  have a: "[k..<k + Suc (length xs)] = k # [Suc k..<Suc k + length xs]"
    using upt_conv_Cons [of k "k + Suc (length xs)"] by (simp del: upt_Suc)
  have b: "filter (\<lambda>j. (x # xs) ! (j - k) = c) [Suc k..<Suc k + length xs]
      = filter (\<lambda>j. xs ! (j - Suc k) = c) [Suc k..<Suc k + length xs]"
  proof (rule filter_cong [OF refl])
    fix j assume "j \<in> set [Suc k..<Suc k + length xs]"
    then have "k < j" by (simp del: upt_Suc)
    then have "j - k = Suc (j - Suc k)" by arith
    then show "((x # xs) ! (j - k) = c) = (xs ! (j - Suc k) = c)" by simp
  qed
  show ?thesis by (simp only: a filter.simps b) simp
qed

lemma group_labels_vals:
  "vals (group_labels d k xs) c = vals d c @ filter (\<lambda>j. xs ! (j - k) = c) [k..<k + length xs]"
proof (induction d k xs rule: group_labels.induct)
  case (1 clusters idx)
  show ?case by simp
next
  case (2 clusters idx cid rest)
  have "vals (dict_append clusters cid idx) c = vals clusters c @ (if cid = c then [idx] else [])"
    by (auto simp: vals_def dict_append_map_of split: option.splits)
  with 2 show ?case
    by (simp only: group_labels.simps filter_upt_Cons length_Cons) simp
qed

lemma group_labels_set:
  "set (group_labels [] 0 xs) = (\<lambda>c. (c, members_of xs c)) ` set xs"
proof -
  let ?D = "group_labels [] 0 xs"
  have d: "distinct (map fst ?D)" by (simp add: group_labels_distinct)
  have k: "fst ` set ?D = set xs" by (simp add: group_labels_keys)
  have v: "vals ?D c = members_of xs c" for c
    unfolding group_labels_vals by (simp add: vals_def members_of_def)
  show ?thesis
  proof (intro set_eqI iffI)
    fix p assume p: "p \<in> set ?D"
    obtain c ms where pc: "p = (c, ms)" by (cases p)
    with p d have "map_of ?D c = Some ms" by simp
    then have "ms = members_of xs c" using v [of c] by (simp add: vals_def)
    moreover from p pc k have "c \<in> set xs" by force
    ultimately show "p \<in> (\<lambda>c. (c, members_of xs c)) ` set xs" using pc by simp
  next
    fix p assume "p \<in> (\<lambda>c. (c, members_of xs c)) ` set xs"
    then obtain c where c: "c \<in> set xs" "p = (c, members_of xs c)" by auto
    with k obtain ms where m: "(c, ms) \<in> set ?D" by force
    with d have "map_of ?D c = Some ms" by simp
    then have "ms = members_of xs c" using v [of c] by (simp add: vals_def)
    with m c show "p \<in> set ?D" by simp
  qed
qed


lemma argmin_loop_bound: "k < i \<Longrightarrow> argmin_loop xs i mp k < i + length xs"
proof (induction xs arbitrary: i mp k)
  case Nil
  then show ?case by simp
next
  case (Cons x xs)
  have a: "argmin_loop xs (Suc i) x i < Suc i + length xs" by (rule Cons.IH) simp
  have b: "argmin_loop xs (Suc i) mp k < Suc i + length xs"
    by (rule Cons.IH) (use Cons.prems in simp)
  from a b show ?case by simp
qed

lemma argmin_less: "xs \<noteq> [] \<Longrightarrow> argmin xs < length xs"
proof (cases xs)
  case Nil
  then show "xs \<noteq> [] \<Longrightarrow> ?thesis" by simp
next
  case (Cons x rest)
  have "argmin_loop rest 1 x 0 < 1 + length rest" by (rule argmin_loop_bound) simp
  with Cons show ?thesis by (simp add: argmin_def)
qed

lemma medoid_index_mem: "ms \<noteq> [] \<Longrightarrow> medoid_index X ms \<in> set ms"
proof -
  assume ne: "ms \<noteq> []"
  let ?sums = "map fp_sum (map (\<lambda>i. map (\<lambda>j. X ! i ! j) ms) ms)"
  have "argmin ?sums < length ms" using argmin_less [of ?sums] ne by simp
  then have "ms ! argmin ?sums \<in> set ms" by simp
  moreover have "ms ! 0 \<in> set ms" using ne by simp
  ultimately show ?thesis by (simp add: medoid_index_def Let_def)
qed

lemma set_members_of: "set (members_of xs c) = {i. i < length xs \<and> xs ! i = c}"
  by (auto simp: members_of_def)

lemma sorted_members_of: "sorted (members_of xs c)"
  by (simp add: members_of_def sorted_wrt_filter)

lemma distinct_members_of: "distinct (members_of xs c)"
  by (simp add: members_of_def)

lemma members_of_nonempty: "c \<in> set xs \<Longrightarrow> members_of xs c \<noteq> []"
proof -
  assume "c \<in> set xs"
  then obtain i where "i < length xs" "xs ! i = c" by (auto simp: in_set_conv_nth)
  then have "i \<in> set (members_of xs c)" by (simp add: set_members_of)
  then show ?thesis by auto
qed

lemma cluster_kept_subset: "ms \<noteq> [] \<Longrightarrow> set (cluster_kept X rmask ms) \<subseteq> set ms"
  using medoid_index_mem [of ms X] by (auto simp: cluster_kept_def Let_def)

lemma cluster_kept_sorted: "sorted ms \<Longrightarrow> sorted (cluster_kept X rmask ms)"
  by (simp add: cluster_kept_def Let_def sorted_wrt_filter)

lemma cluster_kept_distinct: "distinct ms \<Longrightarrow> distinct (cluster_kept X rmask ms)"
  by (simp add: cluster_kept_def Let_def)

lemma cluster_kept_required:
  "i \<in> set ms \<Longrightarrow> rmask ! i \<Longrightarrow> i \<in> set (cluster_kept X rmask ms)"
proof -
  assume "i \<in> set ms" "rmask ! i"
  then show ?thesis by (auto simp: cluster_kept_def Let_def filter_empty_conv)
qed

lemma select_indices:
  "fst (select_at_threshold fcluster Z t names X rmask req target) =
     filter (\<lambda>i. \<exists>c\<in>set (fcluster Z t). i \<in> set (cluster_kept X rmask (members_of (fcluster Z t) c)))
       [0..<length names]"
  by (simp add: select_at_threshold_def Let_def group_labels_set)

lemma select_records:
  "snd (select_at_threshold fcluster Z t names X rmask req target) =
     sort_key cluster_id (map (cluster_entry names X rmask) (group_labels [] 0 (fcluster Z t)))"
  by (simp add: select_at_threshold_def Let_def)

lemma select_filter_cluster:
  assumes len: "length (fcluster Z t) = length names" and c: "c \<in> set (fcluster Z t)"
  shows "filter (\<lambda>i. fcluster Z t ! i = c) (fst (select_at_threshold fcluster Z t names X rmask req target))
           = cluster_kept X rmask (members_of (fcluster Z t) c)"
proof (rule sorted_distinct_set_unique)
  let ?L = "fcluster Z t"
  let ?K = "\<lambda>c. cluster_kept X rmask (members_of ?L c)"
  have sub: "set (?K c') \<subseteq> set (members_of ?L c')" if "c' \<in> set ?L" for c'
    using that by (simp add: cluster_kept_subset members_of_nonempty)
  show "sorted (filter (\<lambda>i. ?L ! i = c) (fst (select_at_threshold fcluster Z t names X rmask req target)))"
    by (simp add: select_indices sorted_wrt_filter)
  show "distinct (filter (\<lambda>i. ?L ! i = c) (fst (select_at_threshold fcluster Z t names X rmask req target)))"
    by (simp add: select_indices)
  show "sorted (?K c)" by (simp add: cluster_kept_sorted sorted_members_of)
  show "distinct (?K c)" by (simp add: cluster_kept_distinct distinct_members_of)
  show "set (filter (\<lambda>i. ?L ! i = c) (fst (select_at_threshold fcluster Z t names X rmask req target)))
          = set (?K c)"
  proof (intro set_eqI iffI)
    fix i assume "i \<in> set (filter (\<lambda>i. ?L ! i = c) (fst (select_at_threshold fcluster Z t names X rmask req target)))"
    then obtain c' where i: "?L ! i = c" "c' \<in> set ?L" "i \<in> set (?K c')"
      by (auto simp: select_indices)
    with sub [of c'] have "i \<in> set (members_of ?L c')" by auto
    then have "?L ! i = c'" by (simp add: set_members_of)
    with i show "i \<in> set (?K c)" by simp
  next
    fix i assume i: "i \<in> set (?K c)"
    with sub [OF c] have "i \<in> set (members_of ?L c)" by auto
    then have "i < length ?L" "?L ! i = c" by (simp_all add: set_members_of)
    with i c len
    show "i \<in> set (filter (\<lambda>i. ?L ! i = c) (fst (select_at_threshold fcluster Z t names X rmask req target)))"
      by (auto simp: select_indices)
  qed
qed

subsection \<open>argmin and the medoid\<close>










subsection \<open>The selection at one threshold\<close>

lemma names_subseq:
  "subseq (map (\<lambda>i. names ! i) (filter P [0..<length names])) names"
proof -
  have "subseq (map (\<lambda>i. names ! i) (filter P [0..<length names]))
          (map (\<lambda>i. names ! i) [0..<length names])"
    by (rule subseq_map) simp
  then show ?thesis by (simp add: map_nth)
qed

lemma names_distinct:
  "distinct names \<Longrightarrow> distinct (map (\<lambda>i. names ! i) (filter P [0..<length names]))"
  by (auto simp: distinct_map inj_on_def nth_eq_iff_index_eq)

text \<open>
  C7. Whatever the labelling, the selection of \<open>select_at_threshold\<close> is a strictly
  ascending list of indices of \<open>names\<close>, so the names it stands for are a subsequence of
  the input names (without duplicates when the input names have none), and the cluster
  records come sorted by cluster id.
\<close>

theorem select_at_threshold_ordered:
  "select_at_threshold fcluster Z t names X rmask req target = (indices, records) \<Longrightarrow>
   sorted indices \<and> distinct indices \<and> (\<forall>i\<in>set indices. i < length names)
   \<and> subseq (map (\<lambda>i. names ! i) indices) names
   \<and> (distinct names \<longrightarrow> distinct (map (\<lambda>i. names ! i) indices))
   \<and> sorted (map cluster_id records)"
proof -
  assume a: "select_at_threshold fcluster Z t names X rmask req target = (indices, records)"
  have i: "indices = filter (\<lambda>i. \<exists>c\<in>set (fcluster Z t). i \<in> set (cluster_kept X rmask (members_of (fcluster Z t) c)))
       [0..<length names]"
    using select_indices [of fcluster Z t names X rmask req target] a by simp
  have r: "records = sort_key cluster_id (map (cluster_entry names X rmask) (group_labels [] 0 (fcluster Z t)))"
    using select_records [of fcluster Z t names X rmask req target] a by simp
  have "sorted indices" unfolding i by (simp add: sorted_wrt_filter)
  moreover have "distinct indices" unfolding i by simp
  moreover have "\<forall>i\<in>set indices. i < length names" unfolding i by simp
  moreover have "subseq (map (\<lambda>i. names ! i) indices) names" unfolding i by (rule names_subseq)
  moreover have "distinct names \<longrightarrow> distinct (map (\<lambda>i. names ! i) indices)"
    unfolding i using names_distinct by blast
  moreover have "sorted (map cluster_id records)" unfolding r by simp
  ultimately show ?thesis by blast
qed

theorem select_at_threshold_ordered_witness:
  "select_at_threshold fcluster_three (1, 2) 1 [''a'', ''b'', ''c'']
      [[Fin 0, Fin 1, Fin 2], [Fin 1, Fin 0, Fin 2], [Fin 2, Fin 2, Fin 0]]
      [False, False, False] [] 2
    = ([0, 2],
       [\<lparr>cluster_id = 1, cluster_size = 2, required_count = 0, selected_ids = [''a'']\<rparr>,
        \<lparr>cluster_id = 2, cluster_size = 1, required_count = 0, selected_ids = [''c'']\<rparr>])
   \<and> distinct [''a'', ''b'', ''c'']
   \<and> subseq [''a'', ''c''] [''a'', ''b'', ''c'']
   \<and> sorted [1, 2 :: int]"
proof -
  have ev: "select_at_threshold fcluster_three (1, 2) 1 [''a'', ''b'', ''c'']
      [[Fin 0, Fin 1, Fin 2], [Fin 1, Fin 0, Fin 2], [Fin 2, Fin 2, Fin 0]]
      [False, False, False] [] 2
    = ([0, 2],
       [\<lparr>cluster_id = 1, cluster_size = 2, required_count = 0, selected_ids = [''a'']\<rparr>,
        \<lparr>cluster_id = 2, cluster_size = 1, required_count = 0, selected_ids = [''c'']\<rparr>])"
    by code_simp
  from select_at_threshold_ordered [OF ev] ev show ?thesis by simp
qed

subsection \<open>The threshold search and main\<close>

lemma search_Some:
  "search sel target cs = Some r \<Longrightarrow>
   (\<exists>pre post. cs = pre @ chosen_threshold r # post
      \<and> (\<forall>t\<in>set pre. target < int (length (fst (sel t)))))
   \<and> sel (chosen_threshold r) = (chosen_indices r, chosen_records r)
   \<and> int (length (chosen_indices r)) \<le> target"
proof (induction cs)
  case Nil
  then show ?case by simp
next
  case (Cons t cs)
  obtain ix rc where s: "sel t = (ix, rc)" by (cases "sel t")
  show ?case
  proof (cases "int (length ix) \<le> target")
    case True
    with Cons.prems s
    have r: "r = \<lparr>chosen_indices = ix, chosen_records = rc, chosen_threshold = t\<rparr>" by simp
    have "t # cs = [] @ chosen_threshold r # cs \<and> (\<forall>t\<in>set []. target < int (length (fst (sel t))))"
      by (simp add: r)
    then have "\<exists>pre post. t # cs = pre @ chosen_threshold r # post
      \<and> (\<forall>t\<in>set pre. target < int (length (fst (sel t))))" by blast
    with True s show ?thesis by (simp add: r)
  next
    case False
    with Cons.prems s have "search sel target cs = Some r" by simp
    from Cons.IH [OF this] obtain pre post where
      p: "cs = pre @ chosen_threshold r # post" "\<forall>t\<in>set pre. target < int (length (fst (sel t)))"
      and rest: "sel (chosen_threshold r) = (chosen_indices r, chosen_records r)"
        "int (length (chosen_indices r)) \<le> target" by blast
    have "t # cs = (t # pre) @ chosen_threshold r # post
        \<and> (\<forall>t\<in>set (t # pre). target < int (length (fst (sel t))))"
      using p False s by simp
    then have "\<exists>pre post. t # cs = pre @ chosen_threshold r # post
      \<and> (\<forall>t\<in>set pre. target < int (length (fst (sel t))))" by blast
    with rest show ?thesis by blast
  qed
qed

lemma search_None:
  "search sel target cs = None \<longleftrightarrow> (\<forall>t\<in>set cs. target < int (length (fst (sel t))))"
  by (induction cs) (auto split: prod.splits)

lemma threshold_search_sel:
  "cs \<noteq> [] \<Longrightarrow>
   chosen_threshold (threshold_search sel target cs) \<in> set cs
   \<and> sel (chosen_threshold (threshold_search sel target cs))
       = (chosen_indices (threshold_search sel target cs), chosen_records (threshold_search sel target cs))"
proof (cases "search sel target cs")
  case None
  assume "cs \<noteq> []"
  with None show ?thesis by (simp add: threshold_search_def split: prod.splits)
next
  case (Some r)
  from search_Some [OF Some] Some show ?thesis by (auto simp: threshold_search_def)
qed

lemma candidate_thresholds_nonempty: "candidate_thresholds condensed mt \<noteq> []"
  by (simp add: candidate_thresholds_def Let_def)

lemma main_success:
  assumes "read_meta meta_lines = Inr meta_map"
      and "int (length (required_indices_of meta_map pg names)) \<le> target"
      and "\<not> list_ex isnan (squareform X)"
      and "linkage (squareform X) meth = Some Z"
  shows "main linkage fcluster meta_lines names X pg target meth mt =
     Inr (threshold_search (selection_at fcluster Z meta_map names X pg target) target
            (candidate_thresholds (squareform X) mt))"
proof -
  have "selection_at fcluster Z meta_map names X pg target =
     (\<lambda>threshold. select_at_threshold fcluster Z threshold names X
        (required_mask_of (length names) (required_indices_of meta_map pg names))
        (required_indices_of meta_map pg names) target)"
    by (rule ext) (simp add: selection_at_def)
  then show ?thesis
    using assms by (simp add: main_def Let_def ensure_priority_subset_def)
qed

lemma main_priority_error:
  assumes "read_meta meta_lines = Inr meta_map"
      and "target < int (length (required_indices_of meta_map pg names))"
  shows "main linkage fcluster meta_lines names X pg target meth mt =
     Inl (PriorityExceedsTarget (length (required_indices_of meta_map pg names)) target)"
  using assms by (simp add: main_def Let_def ensure_priority_subset_def)

lemma main_nan_error:
  assumes "read_meta meta_lines = Inr meta_map"
      and "int (length (required_indices_of meta_map pg names)) \<le> target"
      and "list_ex isnan (squareform X)"
  shows "main linkage fcluster meta_lines names X pg target meth mt = Inl MatrixContainsNaN"
  using assms by (simp add: main_def Let_def ensure_priority_subset_def)

lemma main_linkage_error:
  assumes "read_meta meta_lines = Inr meta_map"
      and "int (length (required_indices_of meta_map pg names)) \<le> target"
      and "\<not> list_ex isnan (squareform X)"
      and "linkage (squareform X) meth = None"
  shows "main linkage fcluster meta_lines names X pg target meth mt = Inl LibraryError"
  using assms by (simp add: main_def Let_def ensure_priority_subset_def)

lemma read_meta_loop_distinct:
  "distinct (map fst m) \<Longrightarrow> distinct (map fst (read_meta_loop m ls))"
proof (induction ls arbitrary: m)
  case Nil
  then show ?case by simp
next
  case (Cons l ls)
  show ?case
  proof (cases "is_record_line l")
    case True
    with Cons show ?thesis by (simp add: read_meta_loop_record AList.distinct_update)
  next
    case False
    with Cons show ?thesis by (simp add: read_meta_loop_skip)
  qed
qed

lemma read_meta_distinct: "read_meta ls = Inr m \<Longrightarrow> distinct (map fst m)"
  using read_meta_loop_distinct [of "[]" ls]
  by (auto simp: read_meta_def Let_def split: if_splits)

lemma priority_ids_iff:
  "distinct (map fst m) \<Longrightarrow> k \<in> set (priority_ids m pg) \<longleftrightarrow> map_of m k = Some pg"
  by (auto simp: priority_ids_def image_iff)

lemma required_mask_nth:
  "i < length names \<Longrightarrow> read_meta ls = Inr m \<Longrightarrow>
   required_mask_of (length names) (required_indices_of m pg names) ! i
     \<longleftrightarrow> map_of m (base_id (names ! i)) = Some pg"
  by (simp add: required_mask_of_def required_indices_of_def priority_ids_iff read_meta_distinct)


lemma required_filter_members:
  assumes "read_meta ls = Inr m" and "length labels = length names"
  shows "filter (\<lambda>i. required_mask_of (length names) (required_indices_of m pg names) ! i)
           (members_of labels c)
         = filter (\<lambda>i. map_of m (base_id (names ! i)) = Some pg) (members_of labels c)"
proof (rule filter_cong [OF refl])
  fix i assume "i \<in> set (members_of labels c)"
  then have "i < length names" using assms(2) by (simp add: set_members_of)
  then show "required_mask_of (length names) (required_indices_of m pg names) ! i
      = (map_of m (base_id (names ! i)) = Some pg)"
    using assms(1) by (simp add: required_mask_nth)
qed

text \<open>
  C1. On a valid input (the metadata has a record, the priority sequences are at most
  \<open>target\<close>, no NaN above the diagonal, \<open>linkage\<close> returns a dendrogram and \<open>fcluster\<close>
  labels every sequence) \<open>main\<close> returns a selection that holds every index whose
  \<open>base_id\<close> the metadata maps to the priority group; and in the chosen cut, what is
  kept of a cluster with a priority member is exactly the list of its priority members.
\<close>

theorem priority_members_selected:
  assumes meta: "read_meta meta_lines = Inr meta_map"
      and tgt: "int (length (required_indices_of meta_map pg names)) \<le> target"
      and nonan: "\<not> list_ex isnan (squareform X)"
      and link: "linkage (squareform X) meth = Some Z"
      and labels: "\<forall>t. length (fcluster Z t) = length names"
  shows "\<exists>r. main linkage fcluster meta_lines names X pg target meth mt = Inr r
     \<and> (\<forall>i<length names. map_of meta_map (base_id (names ! i)) = Some pg
            \<longrightarrow> i \<in> set (chosen_indices r))
     \<and> (\<forall>c\<in>set (fcluster Z (chosen_threshold r)).
           (\<exists>i\<in>set (members_of (fcluster Z (chosen_threshold r)) c).
               map_of meta_map (base_id (names ! i)) = Some pg)
           \<longrightarrow> filter (\<lambda>i. fcluster Z (chosen_threshold r) ! i = c) (chosen_indices r)
                = filter (\<lambda>i. map_of meta_map (base_id (names ! i)) = Some pg)
                    (members_of (fcluster Z (chosen_threshold r)) c))"
proof -
  define sel where "sel = selection_at fcluster Z meta_map names X pg target"
  define r where "r = threshold_search sel target (candidate_thresholds (squareform X) mt)"
  define L where "L = fcluster Z (chosen_threshold r)"
  define rmask where "rmask = required_mask_of (length names) (required_indices_of meta_map pg names)"
  define P where "P = (\<lambda>i. map_of meta_map (base_id (names ! i)) = Some pg)"
  have m: "main linkage fcluster meta_lines names X pg target meth mt = Inr r"
    unfolding r_def sel_def by (rule main_success) (rule meta tgt nonan link)+
  have "sel (chosen_threshold r) = (chosen_indices r, chosen_records r)"
    unfolding r_def using threshold_search_sel [OF candidate_thresholds_nonempty] by blast
  then have ci: "chosen_indices r = fst (select_at_threshold fcluster Z (chosen_threshold r) names X rmask
        (required_indices_of meta_map pg names) target)"
    by (simp add: sel_def selection_at_def rmask_def)
  have len: "length L = length names" using labels by (simp add: L_def)
  have kept: "filter (\<lambda>i. L ! i = c) (chosen_indices r) = cluster_kept X rmask (members_of L c)"
    if "c \<in> set L" for c
    unfolding ci L_def
    by (rule select_filter_cluster) (use that len in \<open>simp_all add: L_def\<close>)
  have fm: "filter (\<lambda>i. rmask ! i) (members_of L c) = filter P (members_of L c)" for c
    unfolding rmask_def P_def by (rule required_filter_members [OF meta len])
  have per: "filter (\<lambda>i. L ! i = c) (chosen_indices r) = filter P (members_of L c)"
    if c: "c \<in> set L" and ex: "\<exists>i\<in>set (members_of L c). P i" for c
  proof -
    from ex have "filter P (members_of L c) \<noteq> []" by (simp add: filter_empty_conv)
    then show ?thesis
      using kept [OF c] by (simp add: cluster_kept_def Let_def fm)
  qed
  have all: "i \<in> set (chosen_indices r)" if i: "i < length names" and p: "P i" for i
  proof -
    have c: "L ! i \<in> set L" using i len by simp
    have mem: "i \<in> set (members_of L (L ! i))" using i len by (simp add: set_members_of)
    with p have "\<exists>i\<in>set (members_of L (L ! i)). P i" by blast
    from per [OF c this] mem p have "i \<in> set (filter (\<lambda>j. L ! j = L ! i) (chosen_indices r))"
      by simp
    then show ?thesis by simp
  qed
  from m per all show ?thesis unfolding L_def P_def by blast
qed

theorem priority_members_selected_witness:
  "read_meta [''a G'', ''c G''] = Inr [(''a'', ''G''), (''c'', ''G'')]
   \<and> int (length (required_indices_of [(''a'', ''G''), (''c'', ''G'')] ''G'' [''a_1'', ''b'', ''c''])) \<le> 2
   \<and> linkage_three (squareform [[Fin 0, Fin 1, Fin 2], [Fin 1, Fin 0, Fin 2], [Fin 2, Fin 2, Fin 0]]) Average
       = Some (1, 2)
   \<and> (\<exists>r. main linkage_three fcluster_three [''a G'', ''c G''] [''a_1'', ''b'', ''c'']
             [[Fin 0, Fin 1, Fin 2], [Fin 1, Fin 0, Fin 2], [Fin 2, Fin 2, Fin 0]] ''G'' 2 Average None = Inr r
          \<and> 0 \<in> set (chosen_indices r) \<and> 2 \<in> set (chosen_indices r))"
proof -
  have h1: "read_meta [''a G'', ''c G''] = Inr [(''a'', ''G''), (''c'', ''G'')]"
    by code_simp
  have h2: "int (length (required_indices_of [(''a'', ''G''), (''c'', ''G'')] ''G'' [''a_1'', ''b'', ''c''])) \<le> 2"
    by code_simp
  have h3: "\<not> list_ex isnan (squareform [[Fin 0, Fin 1, Fin 2], [Fin 1, Fin 0, Fin 2], [Fin 2, Fin 2, Fin 0]])"
    by code_simp
  have h4: "linkage_three (squareform [[Fin 0, Fin 1, Fin 2], [Fin 1, Fin 0, Fin 2], [Fin 2, Fin 2, Fin 0]]) Average
       = Some (1, 2)"
    by code_simp
  have h5: "\<forall>t. length (fcluster_three (1, 2) t) = length [''a_1'', ''b'', ''c'']"
    by (simp add: fcluster_three_def)
  have p0: "map_of [(''a'', ''G''), (''c'', ''G'')] (base_id ([''a_1'', ''b'', ''c''] ! 0)) = Some ''G''"
    by code_simp
  have p2: "map_of [(''a'', ''G''), (''c'', ''G'')] (base_id ([''a_1'', ''b'', ''c''] ! 2)) = Some ''G''"
    by code_simp
  from priority_members_selected [where linkage = linkage_three and fcluster = fcluster_three
      and mt = None, OF h1 h2 h3 h4 h5]
  obtain r where r: "main linkage_three fcluster_three [''a G'', ''c G''] [''a_1'', ''b'', ''c'']
             [[Fin 0, Fin 1, Fin 2], [Fin 1, Fin 0, Fin 2], [Fin 2, Fin 2, Fin 0]] ''G'' 2 Average None = Inr r"
    and a: "\<forall>i<length [''a_1'', ''b'', ''c'']. map_of [(''a'', ''G''), (''c'', ''G'')] (base_id ([''a_1'', ''b'', ''c''] ! i)) = Some ''G''
            \<longrightarrow> i \<in> set (chosen_indices r)"
    by blast
  have l0: "0 < length [''a_1'', ''b'', ''c'']" and l2: "2 < length [''a_1'', ''b'', ''c'']"
    by simp_all
  have "0 \<in> set (chosen_indices r)" by (rule a [rule_format, OF l0 p0])
  moreover have "2 \<in> set (chosen_indices r)" by (rule a [rule_format, OF l2 p2])
  ultimately show ?thesis using h1 h2 h4 r by blast
qed

subsection \<open>The representative of a cluster without required members\<close>




subsection \<open>The order of the checks in main\<close>



lemma main_not_priority_error:
  assumes meta: "read_meta meta_lines = Inr meta_map"
      and le: "int (length (required_indices_of meta_map pg names)) \<le> target"
  shows "main linkage fcluster meta_lines names X pg target meth mt \<noteq> Inl (PriorityExceedsTarget k t)"
proof (cases "list_ex isnan (squareform X)")
  case True
  have "main linkage fcluster meta_lines names X pg target meth mt = Inl MatrixContainsNaN"
    by (rule main_nan_error) (rule meta le True)+
  then show ?thesis by simp
next
  case False
  show ?thesis
  proof (cases "linkage (squareform X) meth")
    case None
    have "main linkage fcluster meta_lines names X pg target meth mt = Inl LibraryError"
      by (rule main_linkage_error) (rule meta le False None)+
    then show ?thesis by simp
  next
    case (Some Z)
    have "main linkage fcluster meta_lines names X pg target meth mt =
      Inr (threshold_search (selection_at fcluster Z meta_map names X pg target) target
            (candidate_thresholds (squareform X) mt))"
      by (rule main_success) (rule meta le False Some)+
    then show ?thesis by simp
  qed
qed

text \<open>
  C2. Once the metadata is read, \<open>main\<close> ends with the error of
  \<open>ensure_priority_subset\<close> exactly when the priority sequences are more than \<open>target\<close>.
  The check comes before the condensed conversion and the clustering: when it fails, the
  outcome is that error whatever the matrix (a NaN included), the linkage rule, the
  threshold bound and the behaviour of \<open>linkage\<close> and \<open>fcluster\<close> are.
\<close>

theorem priority_check_first:
  assumes meta: "read_meta meta_lines = Inr meta_map"
  shows "((\<exists>k t. main linkage fcluster meta_lines names X pg target meth mt
                   = Inl (PriorityExceedsTarget k t))
            \<longleftrightarrow> target < int (length (required_indices_of meta_map pg names)))
     \<and> (target < int (length (required_indices_of meta_map pg names)) \<longrightarrow>
          main linkage fcluster meta_lines names X pg target meth mt
            = Inl (PriorityExceedsTarget (length (required_indices_of meta_map pg names)) target)
          \<and> main linkage' fcluster' meta_lines names X' pg target meth' mt'
            = main linkage fcluster meta_lines names X pg target meth mt)"
proof (cases "target < int (length (required_indices_of meta_map pg names))")
  case True
  have a: "main linkage fcluster meta_lines names X pg target meth mt
            = Inl (PriorityExceedsTarget (length (required_indices_of meta_map pg names)) target)"
    by (rule main_priority_error [OF meta True])
  have b: "main linkage' fcluster' meta_lines names X' pg target meth' mt'
            = Inl (PriorityExceedsTarget (length (required_indices_of meta_map pg names)) target)"
    by (rule main_priority_error [OF meta True])
  from True a b show ?thesis by simp
next
  case False
  then have le: "int (length (required_indices_of meta_map pg names)) \<le> target" by simp
  from main_not_priority_error [OF meta le] False show ?thesis by blast
qed

theorem priority_check_first_witness:
  "read_meta [''a G'', ''c G''] = Inr [(''a'', ''G''), (''c'', ''G'')]
   \<and> (1::int) < int (length (required_indices_of [(''a'', ''G''), (''c'', ''G'')] ''G'' [''a_1'', ''b'', ''c'']))
   \<and> main (\<lambda>condensed meth. (None :: unit option)) (\<lambda>Z t. []) [''a G'', ''c G''] [''a_1'', ''b'', ''c'']
         [[Fin 0, NaN, Fin 2], [Fin 1, Fin 0, Fin 2], [Fin 2, Fin 2, Fin 0]] ''G'' 1 Average None
       = Inl (PriorityExceedsTarget 2 1)
   \<and> main linkage_three fcluster_three [''a G'', ''c G''] [''a_1'', ''b'', ''c'']
         [[Fin 0, Fin 1, Fin 2], [Fin 1, Fin 0, Fin 2], [Fin 2, Fin 2, Fin 0]] ''G'' 1 Average None
       = Inl (PriorityExceedsTarget 2 1)
   \<and> \<not> (2::int) < int (length (required_indices_of [(''a'', ''G''), (''c'', ''G'')] ''G'' [''a_1'', ''b'', ''c'']))
   \<and> (\<forall>k t. main linkage_three fcluster_three [''a G'', ''c G''] [''a_1'', ''b'', ''c'']
         [[Fin 0, Fin 1, Fin 2], [Fin 1, Fin 0, Fin 2], [Fin 2, Fin 2, Fin 0]] ''G'' 2 Average None
       \<noteq> Inl (PriorityExceedsTarget k t))"
proof -
  have h1: "read_meta [''a G'', ''c G''] = Inr [(''a'', ''G''), (''c'', ''G'')]"
    by code_simp
  have n: "length (required_indices_of [(''a'', ''G''), (''c'', ''G'')] ''G'' [''a_1'', ''b'', ''c'']) = 2"
    by code_simp
  note t1 = priority_check_first [OF h1, where pg = "''G''" and names = "[''a_1'', ''b'', ''c'']"
      and target = 1 and linkage = "\<lambda>condensed meth. (None :: unit option)" and fcluster = "\<lambda>Z t. []"
      and X = "[[Fin 0, NaN, Fin 2], [Fin 1, Fin 0, Fin 2], [Fin 2, Fin 2, Fin 0]]"
      and meth = Average and mt = None
      and linkage' = linkage_three and fcluster' = fcluster_three
      and X' = "[[Fin 0, Fin 1, Fin 2], [Fin 1, Fin 0, Fin 2], [Fin 2, Fin 2, Fin 0]]"
      and meth' = Average and mt' = None]
  note t2 = priority_check_first [OF h1, where pg = "''G''" and names = "[''a_1'', ''b'', ''c'']"
      and target = 2 and linkage = linkage_three and fcluster = fcluster_three
      and X = "[[Fin 0, Fin 1, Fin 2], [Fin 1, Fin 0, Fin 2], [Fin 2, Fin 2, Fin 0]]"
      and meth = Average and mt = None]
  from t1 t2 h1 show ?thesis unfolding n by simp
qed

subsection \<open>NaN entries and asymmetric matrices\<close>








subsection \<open>The candidate thresholds\<close>


lemma positive_distances_sorted: "sorted (positive_distances condensed)"
  by (simp add: positive_distances_def Let_def)





lemma candidate_thresholds_eq:
  "candidate_thresholds condensed mt =
     positive_distances condensed @
       [(case mt of None \<Rightarrow> Max (set (positive_distances condensed))
         | Some b \<Rightarrow> min (Max (set (positive_distances condensed))) b) + 1 / 1000000]"
  by (simp add: candidate_thresholds_def Let_def)




subsection \<open>The search over the candidates\<close>

lemma selection_at_target:
  "selection_at fcluster Z meta_map names X pg target1 = selection_at fcluster Z meta_map names X pg target2"
  by (rule ext) (simp add: selection_at_def select_at_threshold_def)

lemma search_mono:
  assumes "search sel target1 cs = Some r1" and "target1 \<le> target2"
  shows "\<exists>r2. search sel target2 cs = Some r2
           \<and> length (chosen_indices r1) \<le> length (chosen_indices r2)
           \<and> int (length (chosen_indices r2)) \<le> target2"
  using assms(1)
proof (induction cs)
  case Nil
  then show ?case by simp
next
  case (Cons t cs)
  obtain ix rc where s: "sel t = (ix, rc)" by (cases "sel t")
  show ?case
  proof (cases "int (length ix) \<le> target1")
    case True
    with Cons.prems s
    have "r1 = \<lparr>chosen_indices = ix, chosen_records = rc, chosen_threshold = t\<rparr>" by simp
    with True s assms(2) show ?thesis by simp
  next
    case False
    with Cons.prems s have rest: "search sel target1 cs = Some r1" by simp
    show ?thesis
    proof (cases "int (length ix) \<le> target2")
      case True
      from search_Some [OF rest] have "int (length (chosen_indices r1)) \<le> target1" by blast
      with False have "length (chosen_indices r1) \<le> length ix" by simp
      with True s show ?thesis by simp
    next
      case no: False
      from Cons.IH [OF rest] no s show ?thesis by simp
    qed
  qed
qed

lemma threshold_search_within:
  assumes "int (length (chosen_indices (threshold_search sel target cs))) \<le> target" and "cs \<noteq> []"
  shows "search sel target cs = Some (threshold_search sel target cs)"
proof (cases "search sel target cs")
  case None
  then have all: "\<forall>t\<in>set cs. target < int (length (fst (sel t)))" by (simp add: search_None)
  from assms(2) have "last cs \<in> set cs" by simp
  with all have "target < int (length (fst (sel (last cs))))" by blast
  moreover have "chosen_indices (threshold_search sel target cs) = fst (sel (last cs))"
    using None by (simp add: threshold_search_def split: prod.splits)
  ultimately show ?thesis using assms(1) by simp
next
  case (Some r)
  then show ?thesis by (simp add: threshold_search_def)
qed

lemma main_Inr:
  assumes "main linkage fcluster meta_lines names X pg target meth mt = Inr r"
  shows "\<exists>meta_map Z. read_meta meta_lines = Inr meta_map
      \<and> int (length (required_indices_of meta_map pg names)) \<le> target
      \<and> \<not> list_ex isnan (squareform X)
      \<and> linkage (squareform X) meth = Some Z
      \<and> r = threshold_search (selection_at fcluster Z meta_map names X pg target) target
            (candidate_thresholds (squareform X) mt)"
proof (cases "read_meta meta_lines")
  case (Inl e)
  with assms show ?thesis by (simp add: main_def)
next
  case (Inr meta_map)
  show ?thesis
  proof (cases "target < int (length (required_indices_of meta_map pg names))")
    case True
    have "main linkage fcluster meta_lines names X pg target meth mt
      = Inl (PriorityExceedsTarget (length (required_indices_of meta_map pg names)) target)"
      by (rule main_priority_error [OF Inr True])
    with assms show ?thesis by simp
  next
    case False
    then have le: "int (length (required_indices_of meta_map pg names)) \<le> target" by simp
    show ?thesis
    proof (cases "list_ex isnan (squareform X)")
      case True
      have "main linkage fcluster meta_lines names X pg target meth mt = Inl MatrixContainsNaN"
        by (rule main_nan_error) (rule Inr le True)+
      with assms show ?thesis by simp
    next
      case nonan: False
      show ?thesis
      proof (cases "linkage (squareform X) meth")
        case None
        have "main linkage fcluster meta_lines names X pg target meth mt = Inl LibraryError"
          by (rule main_linkage_error) (rule Inr le nonan None)+
        with assms show ?thesis by simp
      next
        case (Some Z)
        have "main linkage fcluster meta_lines names X pg target meth mt =
            Inr (threshold_search (selection_at fcluster Z meta_map names X pg target) target
              (candidate_thresholds (squareform X) mt))"
          by (rule main_success) (rule Inr le nonan Some)+
        with assms Inr le nonan Some show ?thesis by simp
      qed
    qed
  qed
qed

text \<open>
  C5, as stated, fails: a larger target stops the search earlier, at a finer cut, so it
  keeps more. On three sequences (0 and 1 at distance 1, both at distance 2 from the
  third, no priority sequence) target 1 selects one sequence and target 2 selects two.
\<close>

theorem larger_target_smaller_selection_fails:
  "main linkage_three fcluster_three [''x G''] [''a'', ''b'', ''c'']
       [[Fin 0, Fin 1, Fin 2], [Fin 1, Fin 0, Fin 2], [Fin 2, Fin 2, Fin 0]] ''G'' 1 Average None
     = Inr \<lparr>chosen_indices = [0],
            chosen_records = [\<lparr>cluster_id = 1, cluster_size = 3, required_count = 0,
                               selected_ids = [''a'']\<rparr>],
            chosen_threshold = 2\<rparr>
   \<and> main linkage_three fcluster_three [''x G''] [''a'', ''b'', ''c'']
       [[Fin 0, Fin 1, Fin 2], [Fin 1, Fin 0, Fin 2], [Fin 2, Fin 2, Fin 0]] ''G'' 2 Average None
     = Inr \<lparr>chosen_indices = [0, 2],
            chosen_records = [\<lparr>cluster_id = 1, cluster_size = 2, required_count = 0,
                               selected_ids = [''a'']\<rparr>,
                              \<lparr>cluster_id = 2, cluster_size = 1, required_count = 0,
                               selected_ids = [''c'']\<rparr>],
            chosen_threshold = 1\<rparr>
   \<and> \<not> length [0, 2 :: nat] \<le> length [0 :: nat]"
  by code_simp

text \<open>
  C5, amended. When the run with the smaller target succeeds with a selection within that
  target, the run with a larger target on the same input succeeds too, with a selection
  at least as large and within the larger target.
\<close>

theorem larger_target_larger_selection:
  assumes run: "main linkage fcluster meta_lines names X pg target1 meth mt = Inr r1"
      and le: "target1 \<le> target2"
      and within: "int (length (chosen_indices r1)) \<le> target1"
  shows "\<exists>r2. main linkage fcluster meta_lines names X pg target2 meth mt = Inr r2
           \<and> length (chosen_indices r1) \<le> length (chosen_indices r2)
           \<and> int (length (chosen_indices r2)) \<le> target2"
proof -
  from main_Inr [OF run] obtain meta_map Z where
    meta: "read_meta meta_lines = Inr meta_map"
    and cnt: "int (length (required_indices_of meta_map pg names)) \<le> target1"
    and nonan: "\<not> list_ex isnan (squareform X)"
    and link: "linkage (squareform X) meth = Some Z"
    and r1: "r1 = threshold_search (selection_at fcluster Z meta_map names X pg target1) target1
            (candidate_thresholds (squareform X) mt)"
    by blast
  define sel where "sel = selection_at fcluster Z meta_map names X pg target1"
  define cs where "cs = candidate_thresholds (squareform X) mt"
  have sel2: "selection_at fcluster Z meta_map names X pg target2 = sel"
    unfolding sel_def by (rule selection_at_target)
  have ne: "cs \<noteq> []" unfolding cs_def by (rule candidate_thresholds_nonempty)
  have s1: "search sel target1 cs = Some r1"
    using threshold_search_within [of sel target1 cs] within ne
    unfolding r1 sel_def cs_def by simp
  from search_mono [OF s1 le] obtain r2 where
    s2: "search sel target2 cs = Some r2"
    and sz: "length (chosen_indices r1) \<le> length (chosen_indices r2)"
      "int (length (chosen_indices r2)) \<le> target2"
    by blast
  from cnt le have cnt2: "int (length (required_indices_of meta_map pg names)) \<le> target2" by simp
  have "main linkage fcluster meta_lines names X pg target2 meth mt =
      Inr (threshold_search (selection_at fcluster Z meta_map names X pg target2) target2
              (candidate_thresholds (squareform X) mt))"
    by (rule main_success) (rule meta cnt2 nonan link)+
  also have "threshold_search (selection_at fcluster Z meta_map names X pg target2) target2
              (candidate_thresholds (squareform X) mt) = r2"
    unfolding sel2 cs_def [symmetric] using s2 by (simp add: threshold_search_def)
  finally show ?thesis using sz by blast
qed

theorem larger_target_larger_selection_witness:
  "(1::int) \<le> 2
   \<and> (\<exists>r2. main linkage_three fcluster_three [''x G''] [''a'', ''b'', ''c'']
         [[Fin 0, Fin 1, Fin 2], [Fin 1, Fin 0, Fin 2], [Fin 2, Fin 2, Fin 0]] ''G'' 2 Average None
       = Inr r2 \<and> 1 \<le> length (chosen_indices r2) \<and> int (length (chosen_indices r2)) \<le> 2)"
proof -
  define r1 where "r1 = \<lparr>chosen_indices = [0 :: nat],
            chosen_records = [\<lparr>cluster_id = 1, cluster_size = 3, required_count = 0,
                               selected_ids = [''a'']\<rparr>],
            chosen_threshold = 2\<rparr>"
  have run: "main linkage_three fcluster_three [''x G''] [''a'', ''b'', ''c'']
       [[Fin 0, Fin 1, Fin 2], [Fin 1, Fin 0, Fin 2], [Fin 2, Fin 2, Fin 0]] ''G'' 1 Average None
     = Inr r1"
    unfolding r1_def by code_simp
  have le: "(1::int) \<le> 2" by simp
  have within: "int (length (chosen_indices r1)) \<le> 1" by (simp add: r1_def)
  from larger_target_larger_selection [OF run le within]
  show ?thesis by (simp add: r1_def)
qed

text \<open>
  Without \<open>max_threshold\<close>, or with one that is not below the largest candidate, the
  candidates are ascending and the first feasible one is the smallest feasible one.
\<close>

lemma candidate_thresholds_sorted:
  assumes "mt = None \<or> (\<exists>b. mt = Some b \<and> Max (set (positive_distances condensed)) \<le> b)"
  shows "sorted (candidate_thresholds condensed mt)"
proof -
  define pos where "pos = positive_distances condensed"
  have eq: "candidate_thresholds condensed mt = pos @ [Max (set pos) + 1 / 1000000]"
    using assms unfolding candidate_thresholds_eq pos_def by (auto simp: min_def)
  have "x \<le> Max (set pos) + 1 / 1000000" if "x \<in> set pos" for x
  proof -
    have "x \<le> Max (set pos)" using that by simp
    then show ?thesis by simp
  qed
  moreover have "sorted pos" unfolding pos_def by (rule positive_distances_sorted)
  ultimately show ?thesis unfolding eq by (simp add: sorted_append)
qed

lemma search_smallest_when_sorted:
  assumes "sorted cs" and "search sel target cs = Some r"
      and "t \<in> set cs" and "int (length (fst (sel t))) \<le> target"
  shows "chosen_threshold r \<le> t"
proof -
  from search_Some [OF assms(2)] obtain pre post where
    cs: "cs = pre @ chosen_threshold r # post"
    and pre: "\<forall>t\<in>set pre. target < int (length (fst (sel t)))"
    by blast
  from pre assms(4) have "t \<notin> set pre" by auto
  with assms(3) cs have "t = chosen_threshold r \<or> t \<in> set post" by auto
  moreover from assms(1) cs have "\<forall>y\<in>set post. chosen_threshold r \<le> y"
    by (simp add: sorted_append)
  ultimately show ?thesis by auto
qed

text \<open>
  C3. The search is meant to go through ascending heights and to stop at the smallest
  feasible one. With \<open>max_threshold\<close> below the largest distance the sentinel is lowered
  but the candidates above the bound stay, so the list is no longer ascending: for two
  sequences at distance 1, \<open>max_threshold = 0.5\<close> and target 2 the candidates are
  \<open>[1, 0.500001]\<close>, the search stops at height 1 with one sequence, and the smaller
  candidate \<open>0.500001\<close>, whose selection of two sequences fits the target, is never
  evaluated.
\<close>

theorem search_not_ascending_with_low_bound:
  "candidate_thresholds (squareform [[Fin 0, Fin 1], [Fin 1, Fin 0]]) (Some (1 / 2))
     = [1, 500001 / 1000000]
   \<and> main linkage_two fcluster_two [''x G''] [''a'', ''b''] [[Fin 0, Fin 1], [Fin 1, Fin 0]]
         ''G'' 2 Average (Some (1 / 2))
     = Inr \<lparr>chosen_indices = [0],
            chosen_records = [\<lparr>cluster_id = 1, cluster_size = 2, required_count = 0,
                               selected_ids = [''a'']\<rparr>],
            chosen_threshold = 1\<rparr>
   \<and> fst (selection_at fcluster_two 1 [(''x'', ''G'')] [''a'', ''b'']
            [[Fin 0, Fin 1], [Fin 1, Fin 0]] ''G'' 2 (500001 / 1000000)) = [0, 1]
   \<and> int (length [0, 1 :: nat]) \<le> 2
   \<and> (500001 / 1000000 :: real) < 1"
  by code_simp

end
